theory Spec2Isabelle
  imports Main
begin

section \<open>ConfirmationModal: the confirmation gate\<close>

text \<open>
  The component \<open>ConfirmationModal\<close> is a function of its props. Its callbacks are
  values of an arbitrary type \<open>'h\<close>: the modal never runs them itself, it only wires
  them to the \<open>onClick\<close> of its controls. An optional prop is an \<open>option\<close>, with
  \<open>None\<close> for \<open>undefined\<close>; the default of the parameter list is taken then.
\<close>

datatype variant = Danger | Warning | Info

record 'h ConfirmationModalProps =
  isOpen :: bool
  onClose :: 'h
  onConfirm :: 'h
  title :: "string option"
  description :: "string option"
  confirmLabel :: "string option"
  cancelLabel :: "string option"
  variant :: "variant option"
  isLoading :: "bool option"

text \<open>
  A rendered control: the handler on its \<open>onClick\<close> (if any) and its \<open>disabled\<close>
  attribute. An element written without \<open>disabled\<close> has it false.
\<close>

record 'h control =
  onClick :: "'h option"
  disabled :: bool

text \<open>
  Modelled from the spec: the \<open>Button\<close> component (\<open>@/components/ui/button\<close>) and the
  browser's dispatch of clicks are not among the sources. Following the spec ("disabled
  while \<open>isLoading\<close>", "both controls disabled" meaning no callback invocation), activating
  a disabled control invokes nothing, and activating any other control invokes the handler
  on its \<open>onClick\<close>.
\<close>

definition activate :: "'h control \<Rightarrow> 'h option" where
  "activate c = (if disabled c then None else onClick c)"

text \<open>A default parameter value: used when the prop is \<open>undefined\<close>.\<close>

definition orDefault :: "'a option \<Rightarrow> 'a \<Rightarrow> 'a" where
  "orDefault x d = (case x of None \<Rightarrow> d | Some v \<Rightarrow> v)"

text \<open>\<open>cond && "classes"\<close>: the string when the condition holds, \<open>false\<close> otherwise.\<close>

definition andClass :: "bool \<Rightarrow> string \<Rightarrow> string option" where
  "andClass c s = (if c then Some s else None)"

text \<open>
  What the modal renders when open: the backdrop, the close button, the icon, the title,
  the description, and the cancel and confirm buttons. Static class names and the
  animation props, which no prop influences, are left out.
\<close>

record 'h modal_view =
  backdrop :: "'h control"
  closeButton :: "'h control"
  iconClassName :: string
  titleText :: string
  descriptionText :: string
  cancelButton :: "'h control"
  cancelText :: string
  confirmButton :: "'h control"
  confirmClassName :: string
  confirmText :: string

text \<open>
  The render function. \<open>cn\<close> (\<open>@/lib/utils\<close>) is not among the sources and is a
  parameter: it receives its arguments in order, \<open>None\<close> for \<open>false\<close>. Nothing is
  rendered when \<open>isOpen\<close> is false.
\<close>

definition ConfirmationModal ::
  "(string option list \<Rightarrow> string) \<Rightarrow> 'h ConfirmationModalProps \<Rightarrow> 'h modal_view option" where
  "ConfirmationModal cn p =
    (let title' = orDefault (title p) ''Are you sure?'';
         description' = orDefault (description p)
           ''This action make your sessions end, and use a new login token.'';
         confirmLabel' = orDefault (confirmLabel p) ''Confirm'';
         cancelLabel' = orDefault (cancelLabel p) ''Cancel'';
         variant' = orDefault (variant p) Danger;
         isLoading' = orDefault (isLoading p) False
     in if isOpen p then
          Some \<lparr>
            backdrop = \<lparr>onClick = Some (onClose p), disabled = False\<rparr>,
            closeButton = \<lparr>onClick = Some (onClose p), disabled = False\<rparr>,
            iconClassName = cn
              [Some ''mb-4 sm:mb-6 flex h-16 w-16 sm:h-12 sm:w-12 items-center justify-center rounded-2xl sm:rounded-xl'',
               andClass (variant' = Danger) ''bg-destructive/10 text-destructive'',
               andClass (variant' = Warning) ''bg-orange-500/10 text-orange-500'',
               andClass (variant' = Info) ''bg-primary/10 text-primary''],
            titleText = title',
            descriptionText = description',
            cancelButton = \<lparr>onClick = Some (onClose p), disabled = isLoading'\<rparr>,
            cancelText = cancelLabel',
            confirmButton = \<lparr>onClick = Some (onConfirm p), disabled = isLoading'\<rparr>,
            confirmClassName = cn
              [Some ''w-full sm:w-auto rounded-xl shadow-lg'',
               andClass (variant' = Danger) ''bg-destructive hover:bg-destructive/90 shadow-destructive/20'',
               andClass (variant' = Warning) ''bg-orange-600 hover:bg-orange-700 shadow-orange-500/20'',
               andClass (variant' = Info) ''bg-primary hover:bg-primary/90 shadow-primary/20''],
            confirmText = (if isLoading' then ''Processing...'' else confirmLabel')
          \<rparr>
        else None)"

text \<open>
  The behaviour of a rendered modal, as opposed to its styling: which handler each control
  carries, which controls are disabled, and the texts shown.
\<close>

definition behaviour ::
  "'h modal_view \<Rightarrow> ('h control \<times> 'h control \<times> 'h control \<times> 'h control) \<times> (string \<times> string \<times> string \<times> string)" where
  "behaviour v =
    ((backdrop v, closeButton v, cancelButton v, confirmButton v),
     (titleText v, descriptionText v, cancelText v, confirmText v))"

text \<open>A sample class combiner for concrete evaluations: the truthy arguments, joined by spaces.\<close>

fun joinClasses :: "string option list \<Rightarrow> string" where
  "joinClasses [] = []"
| "joinClasses (None # xs) = joinClasses xs"
| "joinClasses (Some s # xs) = (if joinClasses xs = [] then s else s @ '' '' @ joinClasses xs)"

section \<open>The scroll lock of the modal\<close>

text \<open>
  The modal's effect hook writes \<open>document.body.style.overflow\<close>. The page is the
  current value of that style together with the list of all assignments made to it, in
  order, so that the assignments a step performs can be counted.
\<close>

record page =
  bodyOverflow :: string
  assignments :: "string list"

definition setBodyOverflow :: "string \<Rightarrow> page \<Rightarrow> page" where
  "setBodyOverflow v d = d\<lparr>bodyOverflow := v, assignments := assignments d @ [v]\<rparr>"

text \<open>The body of the effect, and the cleanup function it returns.\<close>

definition effectBody :: "bool \<Rightarrow> page \<Rightarrow> page" where
  "effectBody isOpen' d =
    (if isOpen' then setBodyOverflow ''hidden'' d else setBodyOverflow ''unset'' d)"

definition effectCleanup :: "page \<Rightarrow> page" where
  "effectCleanup d = setBodyOverflow ''unset'' d"

text \<open>
  The lifecycle of one modal instance under \<open>useEffect(..., [isOpen])\<close>: mounting runs
  the effect; a re-render whose \<open>isOpen\<close> differs from the previous one runs the previous
  cleanup and then the effect; a re-render with the same \<open>isOpen\<close> runs nothing;
  unmounting runs the cleanup. The instance is \<open>None\<close> while unmounted and \<open>Some b\<close>
  while mounted with \<open>isOpen = b\<close>. An event that cannot happen in the current state
  (mounting a mounted instance, re-rendering or unmounting an unmounted one) changes nothing.
\<close>

datatype lifecycle = Mount bool | Rerender bool | Unmount

fun lifecycleStep :: "lifecycle \<Rightarrow> bool option \<times> page \<Rightarrow> bool option \<times> page" where
  "lifecycleStep (Mount b) (None, d) = (Some b, effectBody b d)"
| "lifecycleStep (Mount b) (Some b', d) = (Some b', d)"
| "lifecycleStep (Rerender b) (None, d) = (None, d)"
| "lifecycleStep (Rerender b) (Some b', d) =
     (if b = b' then (Some b', d) else (Some b, effectBody b (effectCleanup d)))"
| "lifecycleStep Unmount (None, d) = (None, d)"
| "lifecycleStep Unmount (Some b', d) = (None, effectCleanup d)"

fun lifecycleRun :: "lifecycle list \<Rightarrow> bool option \<times> page \<Rightarrow> bool option \<times> page" where
  "lifecycleRun [] g = g"
| "lifecycleRun (e # es) g = lifecycleRun es (lifecycleStep e g)"

text \<open>
  The assignments one step performs, and how many of them suppress the scroll
  (\<open>'hidden'\<close>) or release it (\<open>'unset'\<close>).
\<close>

definition performed :: "lifecycle \<Rightarrow> bool option \<times> page \<Rightarrow> string list" where
  "performed e g = drop (length (assignments (snd g))) (assignments (snd (lifecycleStep e g)))"

definition activations :: "string list \<Rightarrow> nat" where
  "activations ws = count_list ws ''hidden''"

definition releases :: "string list \<Rightarrow> nat" where
  "releases ws = count_list ws ''unset''"

definition gateOpen :: "bool option \<times> page \<Rightarrow> bool" where
  "gateOpen g = (fst g = Some True)"

section \<open>AuthButton: the sign-out control\<close>

text \<open>
  The statements of the handlers of \<open>AuthButton\<close>. A handler is the list of the
  statements it executes, in source order.
\<close>

datatype stmt =
    SetShowSignOutConfirm bool
  | SetIsSigningOut bool
  | AuthClientSignOut
  | RouterPush string
  | ConsoleError string

datatype outcome = Resolved | Rejected

definition handleSignOutClick :: "stmt list" where
  "handleSignOutClick = [SetShowSignOutConfirm True]"

text \<open>
  \<open>confirmSignOut\<close> is asynchronous: the statements it executes up to the \<open>await\<close>, and
  the statements it executes once the awaited promise has settled (the rest of the
  \<open>try\<close> block or the \<open>catch\<close> block, then the \<open>finally\<close> block).
\<close>

definition confirmSignOut :: "stmt list \<times> (outcome \<Rightarrow> stmt list)" where
  "confirmSignOut =
    ([SetIsSigningOut True, AuthClientSignOut],
     \<lambda>r. (case r of
            Resolved \<Rightarrow> [SetShowSignOutConfirm False, RouterPush ''/'']
          | Rejected \<Rightarrow> [ConsoleError ''Error signing out:''])
          @ [SetIsSigningOut False])"

text \<open>The handlers \<open>AuthButton\<close> hands to its controls; two of them are inline arrows.\<close>

datatype handler = HandleSignOutClick | ConfirmSignOut | CloseConfirm | PushSignIn

definition handlerBody :: "handler \<Rightarrow> stmt list" where
  "handlerBody h =
    (case h of
       HandleSignOutClick \<Rightarrow> handleSignOutClick
     | ConfirmSignOut \<Rightarrow> fst confirmSignOut
     | CloseConfirm \<Rightarrow> [SetShowSignOutConfirm False]
     | PushSignIn \<Rightarrow> [RouterPush ''/sign-in''])"

text \<open>
  The world of one mounted \<open>AuthButton\<close>: what \<open>useSession\<close> reports (\<open>data\<close> and
  \<open>isPending\<close>), the two pieces of local state, the number of \<open>signOut\<close> promises not
  yet settled, and the statements executed so far. A state setter takes effect before the
  next event is handled. The last field is the dialog that has been closed and is still in
  the document, playing its exit animation (see \<open>keepExiting\<close> below).
\<close>

record world =
  session :: "string option"
  loading :: bool
  showSignOutConfirm :: bool
  isSigningOut :: bool
  outstanding :: nat
  trace :: "stmt list"
  exiting :: "handler modal_view option"

fun effect :: "stmt \<Rightarrow> world \<Rightarrow> world" where
  "effect (SetShowSignOutConfirm b) w = w\<lparr>showSignOutConfirm := b\<rparr>"
| "effect (SetIsSigningOut b) w = w\<lparr>isSigningOut := b\<rparr>"
| "effect AuthClientSignOut w = w\<lparr>outstanding := outstanding w + 1\<rparr>"
| "effect (RouterPush path) w = w"
| "effect (ConsoleError msg) w = w"

definition exec :: "stmt \<Rightarrow> world \<Rightarrow> world" where
  "exec s w = (effect s w)\<lparr>trace := trace w @ [s]\<rparr>"

fun run :: "stmt list \<Rightarrow> world \<Rightarrow> world" where
  "run [] w = w"
| "run (s # ss) w = run ss (exec s w)"

text \<open>A statement that reaches outside the control's own state.\<close>

fun external :: "stmt \<Rightarrow> bool" where
  "external (SetShowSignOutConfirm b) = False"
| "external (SetIsSigningOut b) = False"
| "external AuthClientSignOut = True"
| "external (RouterPush path) = True"
| "external (ConsoleError msg) = True"

text \<open>What \<open>AuthButton\<close> renders: one of its three return statements.\<close>

datatype 'h authView =
    Placeholder "'h control"
  | SignedIn "'h modal_view option" "'h control"
  | SignedOut "'h control"

definition signOutModalProps :: "world \<Rightarrow> handler ConfirmationModalProps" where
  "signOutModalProps w =
    \<lparr>isOpen = showSignOutConfirm w,
     onClose = CloseConfirm,
     onConfirm = ConfirmSignOut,
     title = Some ''Sign Out'',
     description = Some ''Are you sure you want to sign out?'',
     confirmLabel = Some ''Sign Out'',
     cancelLabel = None,
     variant = None,
     isLoading = Some (isSigningOut w)\<rparr>"

definition AuthButton :: "(string option list \<Rightarrow> string) \<Rightarrow> world \<Rightarrow> handler authView" where
  "AuthButton cn w =
    (if loading w then Placeholder \<lparr>onClick = None, disabled = True\<rparr>
     else if session w \<noteq> None then
       SignedIn (ConfirmationModal cn (signOutModalProps w))
                \<lparr>onClick = Some HandleSignOutClick, disabled = False\<rparr>
     else SignedOut \<lparr>onClick = Some PushSignIn, disabled = False\<rparr>)"

text \<open>The controls a user can aim at, and where each is in a rendered view, if anywhere.\<close>

datatype target =
    Backdrop | CloseButton | CancelButton | ConfirmButton
  | SignOutButton | SignInButton | PlaceholderButton

fun locateInModal :: "target \<Rightarrow> 'h modal_view \<Rightarrow> 'h control option" where
  "locateInModal Backdrop v = Some (backdrop v)"
| "locateInModal CloseButton v = Some (closeButton v)"
| "locateInModal CancelButton v = Some (cancelButton v)"
| "locateInModal ConfirmButton v = Some (confirmButton v)"
| "locateInModal t v = None"

fun locate :: "target \<Rightarrow> 'h authView \<Rightarrow> 'h control option" where
  "locate PlaceholderButton (Placeholder c) = Some c"
| "locate t (Placeholder c) = None"
| "locate SignOutButton (SignedIn m c) = Some c"
| "locate t (SignedIn None c) = None"
| "locate t (SignedIn (Some v) c) = locateInModal t v"
| "locate SignInButton (SignedOut c) = Some c"
| "locate t (SignedOut c) = None"

definition click :: "target \<Rightarrow> 'h authView \<Rightarrow> 'h option" where
  "click t v = (case locate t v of None \<Rightarrow> None | Some c \<Rightarrow> activate c)"

text \<open>The dialog of a rendered view, if the modal is mounted and open.\<close>

fun dialogOf :: "'h authView \<Rightarrow> 'h modal_view option" where
  "dialogOf (Placeholder c) = None"
| "dialogOf (SignedIn m c) = m"
| "dialogOf (SignedOut c) = None"

text \<open>
  The modal returns its dialog inside \<open>AnimatePresence\<close>, and both animated elements
  carry \<open>exit="closed"\<close>. \<open>AnimatePresence\<close> (framer-motion) is not among the sources;
  as documented, a child that leaves the tree stays in the document, as it was last
  rendered, until its exit animation has finished. So when a render of the mounted modal
  has no dialog and the render before had one, that dialog is kept, with the handlers and
  the \<open>disabled\<close> attributes of its last render; a render with a dialog replaces whatever
  was exiting; and when \<open>AuthButton\<close> returns another branch the modal is unmounted
  together with anything exiting. \<open>keepExiting cn w w'\<close> is the world \<open>w'\<close> after the
  render that follows the world \<open>w\<close>.
\<close>

definition keepExiting :: "(string option list \<Rightarrow> string) \<Rightarrow> world \<Rightarrow> world \<Rightarrow> world" where
  "keepExiting cn w w' =
    w'\<lparr>exiting :=
      (case AuthButton cn w' of
         Placeholder c \<Rightarrow> None
       | SignedOut c \<Rightarrow> None
       | SignedIn (Some v') c \<Rightarrow> None
       | SignedIn None c \<Rightarrow>
           (case dialogOf (AuthButton cn w) of
              Some v \<Rightarrow> Some v
            | None \<Rightarrow> exiting w'))\<rparr>"

text \<open>
  A click in the document: on a control of the current render, or, when the current render
  has no dialog, on a control of the dialog that is still exiting.
\<close>

definition clickDocument :: "(string option list \<Rightarrow> string) \<Rightarrow> target \<Rightarrow> world \<Rightarrow> handler option" where
  "clickDocument cn t w =
    (case dialogOf (AuthButton cn w) of
       Some v \<Rightarrow> click t (AuthButton cn w)
     | None \<Rightarrow>
         (case click t (AuthButton cn w) of
            Some h \<Rightarrow> Some h
          | None \<Rightarrow>
              (case exiting w of
                 None \<Rightarrow> None
               | Some v \<Rightarrow>
                   (case locateInModal t v of None \<Rightarrow> None | Some c \<Rightarrow> activate c))))"

text \<open>
  The events of the world: the user activates a control, the outstanding \<open>signOut\<close>
  promise settles, the session provider reports a new session or pending flag, or the exit
  animation of a closed dialog finishes. A click on a control that is absent or disabled
  runs nothing; a settlement with no promise outstanding cannot happen and changes nothing.
  \<open>handle\<close> runs the handler of the event; \<open>step\<close> is \<open>handle\<close> followed by the render.
\<close>

datatype event = Click target | Settle outcome | Provider "string option" bool | ExitComplete

fun handle :: "(string option list \<Rightarrow> string) \<Rightarrow> event \<Rightarrow> world \<Rightarrow> world" where
  "handle cn (Click t) w =
     (case clickDocument cn t w of
        None \<Rightarrow> w
      | Some h \<Rightarrow> run (handlerBody h) w)"
| "handle cn (Settle r) w =
     (if outstanding w = 0 then w
      else run (snd confirmSignOut r) (w\<lparr>outstanding := outstanding w - 1\<rparr>))"
| "handle cn (Provider s l) w = w\<lparr>session := s, loading := l\<rparr>"
| "handle cn ExitComplete w = w\<lparr>exiting := None\<rparr>"

definition step :: "(string option list \<Rightarrow> string) \<Rightarrow> event \<Rightarrow> world \<Rightarrow> world" where
  "step cn e w = keepExiting cn w (handle cn e w)"

fun steps :: "(string option list \<Rightarrow> string) \<Rightarrow> event list \<Rightarrow> world \<Rightarrow> world" where
  "steps cn [] w = w"
| "steps cn (e # es) w = steps cn es (step cn e w)"

definition initial :: "string option \<Rightarrow> bool \<Rightarrow> world" where
  "initial s l =
    \<lparr>session = s, loading = l, showSignOutConfirm = False, isSigningOut = False,
     outstanding = 0, trace = [], exiting = None\<rparr>"

text \<open>Invariant used in the proofs below.\<close>

definition lockInvariant :: "bool option \<times> page \<Rightarrow> bool" where
  "lockInvariant g =
    (if gateOpen g then bodyOverflow (snd g) = ''hidden'' else bodyOverflow (snd g) \<noteq> ''hidden'')"

section \<open>Auxiliary facts\<close>

lemmas modal_defs = ConfirmationModal_def orDefault_def andClass_def activate_def Let_def

lemmas world_defs = AuthButton_def signOutModalProps_def click_def handlerBody_def
  handleSignOutClick_def confirmSignOut_def exec_def initial_def
  step_def keepExiting_def clickDocument_def

lemmas page_defs = setBodyOverflow_def effectBody_def effectCleanup_def

subsection \<open>The sign-out control\<close>

text \<open>
  The rejection path of \<open>confirmSignOut\<close> by itself: it logs the error and clears the
  loading flag, and leaves \<open>showSignOutConfirm\<close> as it finds it.
\<close>

lemma confirmSignOut_rejected_path:
  "0 < outstanding w \<Longrightarrow>
    (let w' = step cn (Settle Rejected) w in
       \<not> isSigningOut w' \<and> showSignOutConfirm w' = showSignOutConfirm w
     \<and> trace w' = trace w @ [ConsoleError ''Error signing out:'', SetIsSigningOut False]
     \<and> outstanding w' = outstanding w - 1)"
  by (simp add: step_def keepExiting_def confirmSignOut_def exec_def)

subsection \<open>The scroll lock\<close>

lemma lockInvariant_step: "lockInvariant g \<Longrightarrow> lockInvariant (lifecycleStep e g)"
proof (cases g)
  case (Pair m d)
  assume "lockInvariant g"
  then show ?thesis unfolding Pair
    by (cases e; cases m) (auto simp add: lockInvariant_def gateOpen_def page_defs)
qed

lemma lockInvariant_run: "lockInvariant g \<Longrightarrow> lockInvariant (lifecycleRun es g)"
  by (induction es arbitrary: g) (simp_all add: lockInvariant_step)

lemma performed_simps:
  "performed (Mount b) (None, d) = [if b then ''hidden'' else ''unset'']"
  "performed (Rerender True) (Some False, d) = [''unset'', ''hidden'']"
  "performed (Rerender False) (Some True, d) = [''unset'', ''unset'']"
  "performed (Rerender b) (Some b, d) = []"
  "performed Unmount (Some b, d) = [''unset'']"
  by (simp_all add: performed_def page_defs)

section \<open>The confirmation gate\<close>

text \<open>
  Claim C1 says that while \<open>isLoading\<close> is true a click on the backdrop and an
  activation of the close control invoke no callback. The code at a request that
  \<open>AuthButton\<close> really passes: after the user has asked to sign out and confirmed, the
  modal is open with \<open>isLoading = true\<close>, and a click on the backdrop or on the close
  button still invokes \<open>onClose\<close>, which hides the confirmation while the sign-out call
  is outstanding. Only the cancel and confirm buttons carry \<open>disabled={isLoading}\<close>.
\<close>

theorem backdrop_and_close_invoke_onClose_while_loading:
  "let w = steps joinClasses [Click SignOutButton, Click ConfirmButton] (initial (Some ''user'') False)
   in isOpen (signOutModalProps w) \<and> isLoading (signOutModalProps w) = Some True
    \<and> outstanding w = 1
    \<and> click Backdrop (AuthButton joinClasses w) = Some CloseConfirm
    \<and> click CloseButton (AuthButton joinClasses w) = Some CloseConfirm
    \<and> click CancelButton (AuthButton joinClasses w) = None
    \<and> \<not> showSignOutConfirm (step joinClasses (Click Backdrop) w)
    \<and> \<not> showSignOutConfirm (step joinClasses (Click CloseButton) w)"
  by (simp add: world_defs modal_defs)

text \<open>
  Claim C5: for every request with \<open>isLoading = true\<close>, the confirm control and the
  cancel control are rendered disabled, and activating either invokes neither
  \<open>onConfirm\<close> nor \<open>onClose\<close>. (When \<open>isOpen\<close> is false nothing is rendered at all.)
\<close>

theorem loading_disables_confirm_and_cancel:
  assumes "isLoading p = Some True"
  shows "case ConfirmationModal cn p of
           None \<Rightarrow> \<not> isOpen p
         | Some v \<Rightarrow>
             isOpen p
           \<and> disabled (confirmButton v) \<and> disabled (cancelButton v)
           \<and> activate (confirmButton v) = None \<and> activate (cancelButton v) = None"
  using assms by (simp add: modal_defs)

theorem loading_disables_confirm_and_cancel_witness:
  "isLoading (signOutModalProps
      (steps joinClasses [Click SignOutButton, Click ConfirmButton] (initial (Some ''user'') False)))
     = Some True
   \<and> (case ConfirmationModal joinClasses (signOutModalProps
          (steps joinClasses [Click SignOutButton, Click ConfirmButton] (initial (Some ''user'') False))) of
         None \<Rightarrow> False
       | Some v \<Rightarrow>
           disabled (confirmButton v) \<and> disabled (cancelButton v)
         \<and> activate (confirmButton v) = None \<and> activate (cancelButton v) = None)"
  using loading_disables_confirm_and_cancel
    [of "signOutModalProps
      (steps joinClasses [Click SignOutButton, Click ConfirmButton] (initial (Some ''user'') False))"
     joinClasses]
  by (simp add: world_defs modal_defs)

text \<open>
  Claim C8: two requests that differ only in \<open>variant\<close> render the same behaviour: the
  same handlers on the same controls, the same controls disabled, the same texts. The
  variant reaches only the two class names which \<open>behaviour\<close> leaves out.
\<close>

theorem variant_affects_styling_only:
  "map_option behaviour (ConfirmationModal cn (p\<lparr>variant := v1\<rparr>))
     = map_option behaviour (ConfirmationModal cn (p\<lparr>variant := v2\<rparr>))"
  by (simp add: ConfirmationModal_def behaviour_def Let_def)

section \<open>The scroll lock\<close>

text \<open>
  Claim C6, as stated, asks for exactly one release on each transition out of
  \<open>isOpen = true\<close>. When an open modal is re-rendered with \<open>isOpen = false\<close>, the cleanup
  of the previous effect assigns \<open>'unset'\<close> and then the \<open>else\<close> branch of the new effect
  assigns \<open>'unset'\<close> again: two releases, not one.
\<close>

theorem close_by_rerender_releases_twice:
  "lifecycleRun [Mount True] (None, \<lparr>bodyOverflow = ''auto'', assignments = []\<rparr>)
     = (Some True, \<lparr>bodyOverflow = ''hidden'', assignments = [''hidden'']\<rparr>)
   \<and> performed (Rerender False)
        (Some True, \<lparr>bodyOverflow = ''hidden'', assignments = [''hidden'']\<rparr>)
     = [''unset'', ''unset'']
   \<and> releases (performed (Rerender False)
        (Some True, \<lparr>bodyOverflow = ''hidden'', assignments = [''hidden'']\<rparr>)) \<noteq> 1"
  by (simp add: page_defs performed_def releases_def)

text \<open>
  Claim C6, amended: each transition into \<open>isOpen = true\<close> (mounting open, or a re-render
  from closed to open) performs exactly one scroll-suppression activation; a teardown while
  open performs exactly one release; a re-render from open to closed performs two releases
  (the cleanup, then the effect's \<open>else\<close> branch) and no activation, and leaves the
  overflow at \<open>'unset'\<close>. For a gate that starts unmounted on a page whose scroll is not
  suppressed, after any sequence of lifecycle events the scroll is suppressed when the
  gate is open and released when it is not.
\<close>

theorem scroll_lock_lifecycle:
  "activations (performed (Mount True) (None, d)) = 1
 \<and> activations (performed (Rerender True) (Some False, d)) = 1
 \<and> releases (performed Unmount (Some True, d)) = 1
 \<and> performed (Rerender False) (Some True, d) = [''unset'', ''unset'']
 \<and> releases (performed (Rerender False) (Some True, d)) = 2
 \<and> activations (performed (Rerender False) (Some True, d)) = 0
 \<and> bodyOverflow (snd (lifecycleStep (Rerender False) (Some True, d))) = ''unset''
 \<and> bodyOverflow (snd (lifecycleStep Unmount (Some True, d))) = ''unset''
 \<and> (bodyOverflow d \<noteq> ''hidden'' \<longrightarrow>
      (let g = lifecycleRun es (None, d) in
         if gateOpen g then bodyOverflow (snd g) = ''hidden''
         else bodyOverflow (snd g) \<noteq> ''hidden''))"
proof -
  have "lockInvariant (lifecycleRun es (None, d))" if "bodyOverflow d \<noteq> ''hidden''"
    using that by (intro lockInvariant_run) (simp add: lockInvariant_def gateOpen_def)
  then show ?thesis
    by (simp add: performed_simps activations_def releases_def lockInvariant_def Let_def page_defs)
qed

theorem scroll_lock_lifecycle_witness:
  "bodyOverflow \<lparr>bodyOverflow = ''auto'', assignments = []\<rparr> \<noteq> ''hidden''
 \<and> \<not> gateOpen (lifecycleRun [Mount False, Rerender True, Rerender False, Rerender True, Unmount]
        (None, \<lparr>bodyOverflow = ''auto'', assignments = []\<rparr>))
 \<and> bodyOverflow (snd (lifecycleRun [Mount False, Rerender True, Rerender False, Rerender True, Unmount]
        (None, \<lparr>bodyOverflow = ''auto'', assignments = []\<rparr>))) \<noteq> ''hidden''
 \<and> gateOpen (lifecycleRun [Mount False, Rerender True]
        (None, \<lparr>bodyOverflow = ''auto'', assignments = []\<rparr>))
 \<and> bodyOverflow (snd (lifecycleRun [Mount False, Rerender True]
        (None, \<lparr>bodyOverflow = ''auto'', assignments = []\<rparr>))) = ''hidden''"
  using scroll_lock_lifecycle
      [of "\<lparr>bodyOverflow = ''auto'', assignments = []\<rparr>"
          "[Mount False, Rerender True, Rerender False, Rerender True, Unmount]"]
    scroll_lock_lifecycle
      [of "\<lparr>bodyOverflow = ''auto'', assignments = []\<rparr>" "[Mount False, Rerender True]"]
  by (simp add: page_defs gateOpen_def)

text \<open>
  Claim C10: every transition of the gate to closed and every unmount leaves the body's
  overflow at the literal \<open>'unset'\<close>; an overflow value other than \<open>'unset'\<close> that the
  page had before is overwritten by an open/close cycle (by re-rendering a mounted gate
  open and closed, or by mounting it open and unmounting it), not restored.
\<close>

theorem overflow_overwritten_not_restored:
  assumes "bodyOverflow d \<noteq> ''unset''"
  shows "bodyOverflow (snd (lifecycleStep (Rerender False) (Some True, d))) = ''unset''
       \<and> bodyOverflow (snd (lifecycleStep Unmount (Some b, d))) = ''unset''
       \<and> bodyOverflow (snd (lifecycleRun [Rerender True, Rerender False] (Some False, d))) = ''unset''
       \<and> bodyOverflow (snd (lifecycleRun [Mount True, Unmount] (None, d))) = ''unset''
       \<and> bodyOverflow (snd (lifecycleRun [Rerender True, Rerender False] (Some False, d)))
           \<noteq> bodyOverflow d
       \<and> bodyOverflow (snd (lifecycleRun [Mount True, Unmount] (None, d))) \<noteq> bodyOverflow d"
  using assms by (simp add: page_defs)

theorem overflow_overwritten_not_restored_witness:
  "bodyOverflow \<lparr>bodyOverflow = ''scroll'', assignments = []\<rparr> \<noteq> ''unset''
   \<and> lifecycleRun [Mount True, Unmount] (None, \<lparr>bodyOverflow = ''scroll'', assignments = []\<rparr>)
       = (None, \<lparr>bodyOverflow = ''unset'', assignments = [''hidden'', ''unset'']\<rparr>)
   \<and> bodyOverflow (snd (lifecycleRun [Mount True, Unmount]
        (None, \<lparr>bodyOverflow = ''scroll'', assignments = []\<rparr>))) \<noteq> ''scroll''"
  using overflow_overwritten_not_restored [of "\<lparr>bodyOverflow = ''scroll'', assignments = []\<rparr>"]
  by (simp add: page_defs)

section \<open>The sign-out control\<close>

text \<open>
  Claim C2 says that a second confirm cannot fire while the first \<open>signOut\<close> call is
  outstanding. The code at a sequence of clicks: the user asks to sign out, cancels, and
  clicks twice on the confirm button of the dialog that is still playing its exit
  animation. That dialog is not rendered again, so its confirm button stays enabled after
  the first click has set the loading flag; each click runs \<open>confirmSignOut\<close>, which has
  no guard of its own, and two \<open>signOut\<close> calls are outstanding together. Each run does
  set the loading flag before it calls \<open>signOut\<close>, and calls it once.
\<close>

theorem confirm_fires_twice_on_exiting_dialog:
  "showSignOutConfirm (steps joinClasses [Click SignOutButton] (initial (Some ''user'') False))
 \<and> dialogOf (AuthButton joinClasses
      (steps joinClasses [Click SignOutButton, Click CancelButton] (initial (Some ''user'') False)))
    = None
 \<and> outstanding
      (steps joinClasses [Click SignOutButton, Click CancelButton, Click ConfirmButton]
         (initial (Some ''user'') False)) = 1
 \<and> isSigningOut
      (steps joinClasses [Click SignOutButton, Click CancelButton, Click ConfirmButton]
         (initial (Some ''user'') False))
 \<and> clickDocument joinClasses ConfirmButton
      (steps joinClasses [Click SignOutButton, Click CancelButton, Click ConfirmButton]
         (initial (Some ''user'') False)) = Some ConfirmSignOut
 \<and> outstanding
      (steps joinClasses
         [Click SignOutButton, Click CancelButton, Click ConfirmButton, Click ConfirmButton]
         (initial (Some ''user'') False)) = 2
 \<and> trace
      (steps joinClasses
         [Click SignOutButton, Click CancelButton, Click ConfirmButton, Click ConfirmButton]
         (initial (Some ''user'') False))
    = [SetShowSignOutConfirm True, SetShowSignOutConfirm False,
       SetIsSigningOut True, AuthClientSignOut, SetIsSigningOut True, AuthClientSignOut]"
  by (simp add: world_defs modal_defs)

text \<open>
  Claim C3 says that in every execution in which \<open>signOut\<close> rejects the gate is left
  open, so that the user can confirm again. The code at an execution in which the user
  clicks the backdrop while the call is outstanding (the click that claim C1 is about):
  the confirmation is hidden before the rejection arrives; the rejection then logs the
  error, clears the loading flag and requests no navigation, but the gate is closed and no
  confirm control in the document invokes anything.
\<close>

theorem signOut_rejected_after_backdrop_click_gate_closed:
  "outstanding
      (steps joinClasses [Click SignOutButton, Click ConfirmButton, Click Backdrop]
         (initial (Some ''user'') False)) = 1
 \<and> \<not> showSignOutConfirm
      (steps joinClasses [Click SignOutButton, Click ConfirmButton, Click Backdrop]
         (initial (Some ''user'') False))
 \<and> \<not> showSignOutConfirm
      (steps joinClasses [Click SignOutButton, Click ConfirmButton, Click Backdrop, Settle Rejected]
         (initial (Some ''user'') False))
 \<and> \<not> isSigningOut
      (steps joinClasses [Click SignOutButton, Click ConfirmButton, Click Backdrop, Settle Rejected]
         (initial (Some ''user'') False))
 \<and> trace
      (steps joinClasses [Click SignOutButton, Click ConfirmButton, Click Backdrop, Settle Rejected]
         (initial (Some ''user'') False))
    = [SetShowSignOutConfirm True, SetIsSigningOut True, AuthClientSignOut,
       SetShowSignOutConfirm False, ConsoleError ''Error signing out:'', SetIsSigningOut False]
 \<and> dialogOf (AuthButton joinClasses
      (steps joinClasses [Click SignOutButton, Click ConfirmButton, Click Backdrop, Settle Rejected]
         (initial (Some ''user'') False))) = None
 \<and> clickDocument joinClasses ConfirmButton
      (steps joinClasses [Click SignOutButton, Click ConfirmButton, Click Backdrop, Settle Rejected]
         (initial (Some ''user'') False)) = None
 \<and> clickDocument joinClasses ConfirmButton
      (steps joinClasses
         [Click SignOutButton, Click ConfirmButton, Click Backdrop, Settle Rejected, ExitComplete]
         (initial (Some ''user'') False)) = None"
  by (simp add: world_defs modal_defs)

text \<open>
  Claim C4: when the outstanding \<open>signOut\<close> call resolves, the control hides the
  confirmation, requests navigation to \<open>'/'\<close>, and clears the loading flag.
\<close>

theorem signOut_resolved_closes_and_navigates_home:
  assumes "0 < outstanding w"
  shows "let w' = step cn (Settle Resolved) w in
           \<not> showSignOutConfirm w' \<and> \<not> isSigningOut w'
         \<and> trace w' = trace w @ [SetShowSignOutConfirm False, RouterPush ''/'', SetIsSigningOut False]
         \<and> outstanding w' = outstanding w - 1"
  using assms by (simp add: step_def keepExiting_def confirmSignOut_def exec_def)

theorem signOut_resolved_closes_and_navigates_home_witness:
  "0 < outstanding (steps joinClasses [Click SignOutButton, Click ConfirmButton] (initial (Some ''user'') False))
   \<and> \<not> showSignOutConfirm
        (steps joinClasses [Click SignOutButton, Click ConfirmButton, Settle Resolved] (initial (Some ''user'') False))
   \<and> \<not> isSigningOut
        (steps joinClasses [Click SignOutButton, Click ConfirmButton, Settle Resolved] (initial (Some ''user'') False))
   \<and> outstanding
        (steps joinClasses [Click SignOutButton, Click ConfirmButton, Settle Resolved] (initial (Some ''user'') False))
      = 0
   \<and> trace
        (steps joinClasses [Click SignOutButton, Click ConfirmButton, Settle Resolved] (initial (Some ''user'') False))
      = [SetShowSignOutConfirm True, SetIsSigningOut True, AuthClientSignOut,
         SetShowSignOutConfirm False, RouterPush ''/'', SetIsSigningOut False]"
  using signOut_resolved_closes_and_navigates_home
    [of "steps joinClasses [Click SignOutButton, Click ConfirmButton] (initial (Some ''user'') False)"
        joinClasses]
  by (simp add: world_defs modal_defs)

text \<open>
  Claim C7: while the session query is pending, whatever the session value and the local
  state, the control renders the disabled placeholder without a handler; no control of the
  view invokes anything, and the sign-in button is not in the view.
\<close>

theorem pending_session_renders_disabled_placeholder:
  assumes "loading w"
  shows "AuthButton cn w = Placeholder \<lparr>onClick = None, disabled = True\<rparr>
       \<and> (\<forall>t. click t (AuthButton cn w) = None)
       \<and> locate SignInButton (AuthButton cn w) = None"
proof -
  have v: "AuthButton cn w = Placeholder \<lparr>onClick = None, disabled = True\<rparr>"
    using assms by (simp add: AuthButton_def)
  have "click t (AuthButton cn w) = None" for t
    unfolding v by (cases t) (simp_all add: click_def activate_def)
  with v show ?thesis by simp
qed

theorem pending_session_renders_disabled_placeholder_witness:
  "loading (initial None True)
   \<and> AuthButton joinClasses (initial None True) = Placeholder \<lparr>onClick = None, disabled = True\<rparr>
   \<and> click SignInButton (AuthButton joinClasses (initial None True)) = None
   \<and> click SignInButton (AuthButton joinClasses (initial None False)) = Some PushSignIn"
  using pending_session_renders_disabled_placeholder [of "initial None True" joinClasses]
  by (simp add: world_defs modal_defs)

text \<open>
  Claim C9: when the confirmation is already visible, a further request to sign out
  (running \<open>handleSignOutClick\<close>, or clicking the sign-out button) leaves
  \<open>showSignOutConfirm\<close> and \<open>isSigningOut\<close> as they are, starts no \<open>signOut\<close> call, and
  executes no statement that reaches outside the control.
\<close>

theorem request_signOut_idempotent_when_visible:
  assumes "showSignOutConfirm w"
  shows "(let w' = run handleSignOutClick w in
            showSignOutConfirm w' = showSignOutConfirm w \<and> isSigningOut w' = isSigningOut w
          \<and> outstanding w' = outstanding w
          \<and> filter external (trace w') = filter external (trace w))
       \<and> (let w' = step cn (Click SignOutButton) w in
            showSignOutConfirm w' = showSignOutConfirm w \<and> isSigningOut w' = isSigningOut w
          \<and> outstanding w' = outstanding w
          \<and> filter external (trace w') = filter external (trace w))"
  using assms by (simp add: world_defs modal_defs split: option.splits)

theorem request_signOut_idempotent_when_visible_witness:
  "showSignOutConfirm (steps joinClasses [Click SignOutButton] (initial (Some ''user'') False))
   \<and> showSignOutConfirm
        (steps joinClasses [Click SignOutButton, Click SignOutButton] (initial (Some ''user'') False))
   \<and> \<not> isSigningOut
        (steps joinClasses [Click SignOutButton, Click SignOutButton] (initial (Some ''user'') False))
   \<and> outstanding
        (steps joinClasses [Click SignOutButton, Click SignOutButton] (initial (Some ''user'') False)) = 0
   \<and> trace
        (steps joinClasses [Click SignOutButton, Click SignOutButton] (initial (Some ''user'') False))
      = [SetShowSignOutConfirm True, SetShowSignOutConfirm True]"
  using request_signOut_idempotent_when_visible
    [of "steps joinClasses [Click SignOutButton] (initial (Some ''user'') False)" joinClasses]
  by (simp add: world_defs modal_defs)

end
